theory Spec2Isabelle
  imports Complex_Main "HOL-Library.Finite_Map"
begin

section \<open>JavaScript values\<close>

text \<open>
  The component \<^verbatim>\<open>Generate\<close> (src/components/Generate.jsx) keeps parsed JSON in its state
  and reads it with property access, optional chaining, \<^verbatim>\<open>||\<close>, spread and template
  literals. The values are modelled as a datatype: a JSON value, or \<^verbatim>\<open>undefined\<close>.
  An object is a finite map from property names to values (the order of the properties is
  not modelled; no function below depends on it). A number is its real value; a string is
  a \<open>string\<close>, one \<open>char\<close> for each code unit below 256.
\<close>

datatype jsval =
    JUndefined
  | JNull
  | JBool bool
  | JNum real
  | JStr string
  | JArr "jsval list"
  | JObj "(string, jsval) fmap"

text \<open>ToBoolean, as used by \<^verbatim>\<open>||\<close>, \<^verbatim>\<open>!\<close> and the conditional operator.\<close>

fun truthy :: "jsval \<Rightarrow> bool" where
  "truthy JUndefined = False"
| "truthy JNull = False"
| "truthy (JBool b) = b"
| "truthy (JNum r) = (r \<noteq> 0)"
| "truthy (JStr s) = (s \<noteq> [])"
| "truthy (JArr xs) = True"
| "truthy (JObj m) = True"

text \<open>\<^verbatim>\<open>a || b\<close>\<close>

definition or_else :: "jsval \<Rightarrow> jsval \<Rightarrow> jsval" where
  "or_else a b = (if truthy a then a else b)"

definition nullish :: "jsval \<Rightarrow> bool" where
  "nullish v = (v = JUndefined \<or> v = JNull)"

text \<open>
  The property names the component reads are \<^verbatim>\<open>status\<close>, \<^verbatim>\<open>defaults\<close>, \<^verbatim>\<open>choices\<close>,
  \<^verbatim>\<open>message\<close>, \<^verbatim>\<open>content\<close> and \<^verbatim>\<open>error\<close>. None of them is defined by a built-in prototype,
  so on an object the read finds the own property or \<^verbatim>\<open>undefined\<close>, and on an array,
  string, number or boolean it finds \<^verbatim>\<open>undefined\<close>. \<open>own_prop\<close> is used at these names only.
\<close>

fun own_prop :: "jsval \<Rightarrow> string \<Rightarrow> jsval" where
  "own_prop (JObj m) n = (case fmlookup m n of None \<Rightarrow> JUndefined | Some v \<Rightarrow> v)"
| "own_prop v n = JUndefined"

definition quoted :: "string \<Rightarrow> string" where
  "quoted n = CHR 0x27 # n @ [CHR 0x27]"

text \<open>
  \<^verbatim>\<open>v.name\<close>: reading a property of \<^verbatim>\<open>null\<close> or \<^verbatim>\<open>undefined\<close> throws a TypeError. A thrown
  error is \<open>Inl\<close> of its \<^verbatim>\<open>message\<close>; the wording of the message is the engine's (here V8's)
  and no theorem depends on it.
\<close>

fun member :: "jsval \<Rightarrow> string \<Rightarrow> string + jsval" where
  "member JUndefined n =
     Inl (''Cannot read properties of undefined (reading '' @ quoted n @ '')'')"
| "member JNull n =
     Inl (''Cannot read properties of null (reading '' @ quoted n @ '')'')"
| "member v n = Inr (own_prop v n)"

text \<open>\<^verbatim>\<open>v?.name\<close>\<close>

definition opt_member :: "jsval \<Rightarrow> string \<Rightarrow> jsval" where
  "opt_member v n = (if nullish v then JUndefined else own_prop v n)"

text \<open>\<^verbatim>\<open>v?.[0]\<close>: the first element of an array, the first character of a string, the
  property \<^verbatim>\<open>"0"\<close> of an object.\<close>

fun opt_index0 :: "jsval \<Rightarrow> jsval" where
  "opt_index0 (JArr xs) = (case xs of [] \<Rightarrow> JUndefined | x # _ \<Rightarrow> x)"
| "opt_index0 (JStr s) = (case s of [] \<Rightarrow> JUndefined | c # _ \<Rightarrow> JStr [c])"
| "opt_index0 (JObj m) = own_prop (JObj m) ''0''"
| "opt_index0 v = JUndefined"

text \<open>Array index keys are decimal numerals.\<close>

fun dec :: "nat \<Rightarrow> string" where
  "dec n = (if n < 10 then [''0123456789'' ! n]
            else dec (n div 10) @ [''0123456789'' ! (n mod 10)])"

text \<open>
  The own enumerable properties of a value, as object spread copies them: those of an
  object, the elements of an array and the characters of a string under their indices,
  none for a number, a boolean, \<^verbatim>\<open>null\<close> or \<^verbatim>\<open>undefined\<close>.
\<close>

fun own_props :: "jsval \<Rightarrow> (string, jsval) fmap" where
  "own_props (JObj m) = m"
| "own_props (JArr xs) = fmap_of_list (zip (map dec [0..<length xs]) xs)"
| "own_props (JStr s) = fmap_of_list (zip (map dec [0..<length s]) (map (\<lambda>c. JStr [c]) s))"
| "own_props v = fmempty"

text \<open>\<^verbatim>\<open>Object.entries(v)\<close> throws on \<^verbatim>\<open>null\<close> and \<^verbatim>\<open>undefined\<close>.\<close>

definition entries :: "jsval \<Rightarrow> string + (string, jsval) fmap" where
  "entries v = (if nullish v then Inl ''Cannot convert undefined or null to object''
                else Inr (own_props v))"

fun join_comma :: "string list \<Rightarrow> string" where
  "join_comma [] = []"
| "join_comma [x] = x"
| "join_comma (x # y # ys) = x @ '','' @ join_comma (y # ys)"

text \<open>
  ToString, as a template literal applies it; \<open>None\<close> is the TypeError of an object that
  has no primitive value. The first argument is the engine's formatting of a number, which
  the model leaves open. An array is joined with commas, \<^verbatim>\<open>null\<close> and \<^verbatim>\<open>undefined\<close>
  elements giving the empty string; a parsed object prints as \<^verbatim>\<open>[object Object]\<close>, unless it
  has an own property \<^verbatim>\<open>toString\<close>, which (not being callable) leaves only
  \<^verbatim>\<open>valueOf\<close>, and that returns no primitive.
\<close>

fun to_string :: "(real \<Rightarrow> string) \<Rightarrow> jsval \<Rightarrow> string option" where
  "to_string nts JUndefined = Some ''undefined''"
| "to_string nts JNull = Some ''null''"
| "to_string nts (JBool b) = Some (if b then ''true'' else ''false'')"
| "to_string nts (JNum r) = Some (nts r)"
| "to_string nts (JStr s) = Some s"
| "to_string nts (JArr xs) =
     map_option join_comma
       (those (map (\<lambda>x. if nullish x then Some [] else to_string nts x) xs))"
| "to_string nts (JObj m) =
     (if ''toString'' |\<in>| fmdom m then None else Some ''[object Object]'')"

text \<open>\<^verbatim>\<open>String.prototype.trim\<close>: the white space and line terminators among the modelled
  code units are TAB, LF, VT, FF, CR, SPACE and NBSP.\<close>

definition is_space :: "char \<Rightarrow> bool" where
  "is_space c = (c \<in> {CHR 0x09, CHR 0x0A, CHR 0x0B, CHR 0x0C, CHR 0x0D, CHR 0x20, CHR 0xA0})"

definition trim :: "string \<Rightarrow> string" where
  "trim s = rev (dropWhile is_space (rev (dropWhile is_space s)))"

section \<open>The state of the component\<close>

text \<open>
  A response record is an object literal with the fields \<^verbatim>\<open>id\<close>, \<^verbatim>\<open>prompt\<close>, \<^verbatim>\<open>content\<close>,
  \<^verbatim>\<open>timestamp\<close> and, depending on the branch that builds it, \<^verbatim>\<open>parameters\<close> or \<^verbatim>\<open>isError\<close>.
  A field a literal does not have is \<open>None\<close> (it reads as \<^verbatim>\<open>undefined\<close>). The fields
  \<^verbatim>\<open>id\<close> and \<^verbatim>\<open>parameters\<close> are \<open>resp_id\<close> and \<open>resp_parameters\<close> here.
\<close>

record response =
  resp_id :: int
  prompt :: string
  content :: jsval
  timestamp :: string
  resp_parameters :: "jsval option"
  isError :: "bool option"

datatype api_status = ApiChecking | ApiHealthy | ApiPartial | ApiError

record state =
  message :: string
  responses :: "response list"
  currentResponseIndex :: int
  isLoading :: bool
  apiStatus :: api_status
  parameters :: jsval

definition initial :: state where
  "initial = \<lparr> message = [], responses = [], currentResponseIndex = 0, isLoading = False,
     apiStatus = ApiChecking,
     parameters = JObj (fmap_of_list
       [(''temperature'', JNum 0.7), (''top_p'', JNum 0.9), (''top_k'', JNum 40),
        (''max_tokens'', JNum 256), (''frequency_penalty'', JNum 0),
        (''presence_penalty'', JNum 0)]) \<rparr>"

section \<open>Network calls\<close>

text \<open>
  \<^verbatim>\<open>await fetch(...)\<close> either rejects with an error (its \<^verbatim>\<open>message\<close> is kept) or resolves
  with a response: its \<^verbatim>\<open>ok\<close> flag and what \<^verbatim>\<open>await response.json()\<close> will give, a
  rejection (the body is not JSON) or the parsed value.
\<close>

datatype body = BadJson string | Json jsval

datatype fetch_result = Rejected string | Response bool body

record request =
  url :: string
  http_method :: string
  payload :: "jsval option"

definition API_BASE_URL :: string where
  "API_BASE_URL = ''http://localhost:5000''"

subsection \<open>checkHealth\<close>

definition checkHealth_request :: request where
  "checkHealth_request = \<lparr> url = API_BASE_URL @ ''/health'', http_method = ''GET'', payload = None \<rparr>"

definition checkHealth :: "fetch_result \<Rightarrow> state \<Rightarrow> state" where
  "checkHealth r s =
     (case r of
        Rejected e \<Rightarrow> s\<lparr>apiStatus := ApiError\<rparr>
      | Response ok b \<Rightarrow>
          (case b of
             BadJson e \<Rightarrow> s\<lparr>apiStatus := ApiError\<rparr>
           | Json data \<Rightarrow>
               (case member data ''status'' of
                  Inl e \<Rightarrow> s\<lparr>apiStatus := ApiError\<rparr>
                | Inr v \<Rightarrow>
                    if v = JStr ''healthy'' then s\<lparr>apiStatus := ApiHealthy\<rparr>
                    else s\<lparr>apiStatus := ApiPartial\<rparr>)))"

subsection \<open>loadDefaults\<close>

text \<open>The result is the new state and the text of the alert shown.\<close>

definition loadDefaults_request :: request where
  "loadDefaults_request =
     \<lparr> url = API_BASE_URL @ ''/parameters/defaults'', http_method = ''GET'', payload = None \<rparr>"

definition loadDefaults :: "fetch_result \<Rightarrow> state \<Rightarrow> state \<times> string" where
  "loadDefaults r s =
     (case r of
        Rejected e \<Rightarrow> (s, ''Failed to load defaults: '' @ e)
      | Response ok b \<Rightarrow>
          (case b of
             BadJson e \<Rightarrow> (s, ''Failed to load defaults: '' @ e)
           | Json data \<Rightarrow>
               (case member data ''defaults'' of
                  Inl e \<Rightarrow> (s, ''Failed to load defaults: '' @ e)
                | Inr d \<Rightarrow> (s\<lparr>parameters := d\<rparr>, ''Parameters reset to defaults!''))))"

subsection \<open>handleSubmit\<close>

text \<open>
  \<^verbatim>\<open>handleSubmit\<close> is an async function. Its first part runs when the form is submitted, up
  to the awaited \<^verbatim>\<open>fetch\<close>; its second part runs when the fetch settles. The second part
  still sees the \<^verbatim>\<open>message\<close> and \<^verbatim>\<open>parameters\<close> of the render that created the handler
  (the closure), while its state updates apply to the state of that later moment.
\<close>

record closure =
  c_message :: string
  c_parameters :: jsval

text \<open>\<^verbatim>\<open>{ messages: [{ role: "user", content: message }], ...parameters }\<close>\<close>

definition requestBody :: "string \<Rightarrow> jsval \<Rightarrow> jsval" where
  "requestBody msg p =
     JObj (fmap_of_list
             [(''messages'',
               JArr [JObj (fmap_of_list [(''role'', JStr ''user''), (''content'', JStr msg)])])]
           ++\<^sub>f own_props p)"

text \<open>The first part: the new state and, when a fetch is issued, the request and the
  closure that waits for it.\<close>

definition handleSubmit :: "state \<Rightarrow> state \<times> (request \<times> closure) option" where
  "handleSubmit s =
     (if trim (message s) = [] then (s, None)
      else (s\<lparr>isLoading := True\<rparr>,
            Some (\<lparr> url = API_BASE_URL @ ''/chat/completions'', http_method = ''POST'',
                     payload = Some (requestBody (message s) (parameters s)) \<rparr>,
                  \<lparr> c_message = message s, c_parameters = parameters s \<rparr>)))"

text \<open>\<^verbatim>\<open>data.choices?.[0]?.message?.content\<close>\<close>

definition completion_content :: "jsval \<Rightarrow> string + jsval" where
  "completion_content data =
     (case member data ''choices'' of
        Inl e \<Rightarrow> Inl e
      | Inr c \<Rightarrow> Inr (opt_member (opt_member (opt_index0 c) ''message'') ''content''))"

text \<open>
  The body of the \<^verbatim>\<open>try\<close> block after the fetch: the record it builds, or \<open>Inl\<close> of the
  message of the error thrown in it. \<open>now\<close> and \<open>stamp\<close> are what \<^verbatim>\<open>Date.now()\<close> and
  \<^verbatim>\<open>new Date().toLocaleString()\<close> return.
\<close>

definition try_block ::
  "(real \<Rightarrow> string) \<Rightarrow> closure \<Rightarrow> int \<Rightarrow> string \<Rightarrow> fetch_result \<Rightarrow> string + response" where
  "try_block nts c now stamp r =
     (case r of
        Rejected e \<Rightarrow> Inl e
      | Response ok b \<Rightarrow>
          (case b of
             BadJson e \<Rightarrow> Inl e
           | Json data \<Rightarrow>
               if ok then
                 (case completion_content data of
                    Inl e \<Rightarrow> Inl e
                  | Inr v \<Rightarrow>
                      Inr \<lparr> resp_id = now, prompt = c_message c,
                            content = or_else v (JStr ''No response content''),
                            timestamp = stamp,
                            resp_parameters = Some (JObj (own_props (c_parameters c))),
                            isError = None \<rparr>)
               else
                 (case member data ''error'' of
                    Inl e \<Rightarrow> Inl e
                  | Inr v \<Rightarrow>
                      (case to_string nts (or_else v (JStr ''Unknown error'')) of
                         None \<Rightarrow> Inl ''Cannot convert object to primitive value''
                       | Some t \<Rightarrow>
                           Inr \<lparr> resp_id = now, prompt = c_message c,
                                 content = JStr (''Error: '' @ t),
                                 timestamp = stamp,
                                 resp_parameters = None,
                                 isError = Some True \<rparr>))))"

text \<open>The record of a run: the one the \<^verbatim>\<open>try\<close> block built, or the one of the
  \<^verbatim>\<open>catch\<close> block.\<close>

definition new_record ::
  "(real \<Rightarrow> string) \<Rightarrow> closure \<Rightarrow> int \<Rightarrow> string \<Rightarrow> fetch_result \<Rightarrow> response" where
  "new_record nts c now stamp r =
     (case try_block nts c now stamp r of
        Inr rec \<Rightarrow> rec
      | Inl e \<Rightarrow>
          \<lparr> resp_id = now, prompt = c_message c,
            content = JStr (''Network error: '' @ e),
            timestamp = stamp,
            resp_parameters = None,
            isError = Some True \<rparr>)"

text \<open>\<^verbatim>\<open>setResponses(prev => [r, ...prev]); setCurrentResponseIndex(0)\<close>, as all three
  branches end.\<close>

definition push :: "response \<Rightarrow> state \<Rightarrow> state" where
  "push r s = s\<lparr>responses := r # responses s, currentResponseIndex := 0\<rparr>"

text \<open>The second part, with the \<^verbatim>\<open>finally\<close> block.\<close>

definition handleSubmit_settled ::
  "(real \<Rightarrow> string) \<Rightarrow> closure \<Rightarrow> int \<Rightarrow> string \<Rightarrow> fetch_result \<Rightarrow> state \<Rightarrow> state" where
  "handleSubmit_settled nts c now stamp r s =
     (push (new_record nts c now stamp r) s)\<lparr>isLoading := False\<rparr>"

section \<open>The form and the parameter panel\<close>

text \<open>The submit button: \<^verbatim>\<open>disabled={isLoading || !message.trim()}\<close>.\<close>

definition submit_disabled :: "state \<Rightarrow> bool" where
  "submit_disabled s = (isLoading s \<or> trim (message s) = [])"

record config =
  cmin :: real
  cmax :: real
  step :: real
  label :: string

definition configs :: "(string, config) fmap" where
  "configs = fmap_of_list
     [(''temperature'', \<lparr> cmin = 0, cmax = 2, step = 0.1, label = ''Temperature'' \<rparr>),
      (''top_p'', \<lparr> cmin = 0, cmax = 1, step = 0.05, label = ''Top P'' \<rparr>),
      (''top_k'', \<lparr> cmin = 1, cmax = 100, step = 1, label = ''Top K'' \<rparr>),
      (''max_tokens'', \<lparr> cmin = 1, cmax = 1000, step = 1, label = ''Max Tokens'' \<rparr>),
      (''frequency_penalty'', \<lparr> cmin = - 2, cmax = 2, step = 0.1, label = ''Frequency Penalty'' \<rparr>),
      (''presence_penalty'', \<lparr> cmin = - 2, cmax = 2, step = 0.1, label = ''Presence Penalty'' \<rparr>)]"

text \<open>
  \<^verbatim>\<open>configs[key]\<close> reads through the prototype chain: for a key that \<^verbatim>\<open>configs\<close> does not
  have but \<^verbatim>\<open>Object.prototype\<close> has, it finds the inherited member, which is truthy.
\<close>

definition object_prototype_names :: "string list" where
  "object_prototype_names =
     [''constructor'', ''hasOwnProperty'', ''isPrototypeOf'', ''propertyIsEnumerable'',
      ''toLocaleString'', ''toString'', ''valueOf'', ''__proto__'', ''__defineGetter__'',
      ''__defineSetter__'', ''__lookupGetter__'', ''__lookupSetter__'']"

datatype config_lookup = Own config | Inherited | Missing

definition configs_at :: "string \<Rightarrow> config_lookup" where
  "configs_at key =
     (case fmlookup configs key of
        Some c \<Rightarrow> Own c
      | None \<Rightarrow> if key \<in> set object_prototype_names then Inherited else Missing)"

text \<open>
  The panel maps over \<^verbatim>\<open>Object.entries(parameters)\<close> and renders a slider for an entry
  unless \<^verbatim>\<open>!config\<close>. The result is the entries that get a slider, or \<open>Inl\<close> when
  \<^verbatim>\<open>Object.entries\<close> throws.
\<close>

definition panel :: "jsval \<Rightarrow> string + (string, jsval) fmap" where
  "panel p =
     (case entries p of
        Inl e \<Rightarrow> Inl e
      | Inr m \<Rightarrow> Inr (fmfilter (\<lambda>key. configs_at key \<noteq> Missing) m))"

text \<open>
  The handler of the slider of \<open>key\<close>:
  \<^verbatim>\<open>setParameters(prev => ({ ...prev, [key]: parseFloat(e.target.value) }))\<close>.
  \<open>v\<close> is the number \<^verbatim>\<open>parseFloat\<close> returns.
\<close>

definition onChange :: "string \<Rightarrow> real \<Rightarrow> state \<Rightarrow> state" where
  "onChange key v s = s\<lparr>parameters := JObj (fmupd key (JNum v) (own_props (parameters s)))\<rparr>"

text \<open>
  The slider is \<^verbatim>\<open><input type="range" min={config.min} max={config.max} step={config.step}>\<close>,
  and \<^verbatim>\<open>e.target.value\<close> is the value the element holds. An element in the range state
  holds a sanitised value (HTML standard, range state): a value below the minimum becomes
  the minimum; a value above the maximum becomes the maximum, unless the maximum is below
  the minimum; a value that is not the minimum plus a whole number of steps is rounded to
  the nearest such number between the minimum and the maximum, the upper one of two equally
  near. A step that is not positive counts as the default step 1. With an inherited member
  for \<^verbatim>\<open>config\<close> the three attributes are \<^verbatim>\<open>undefined\<close> and the element has its defaults:
  minimum 0, maximum 100, step 1.
\<close>

definition nearest_step :: "real \<Rightarrow> real \<Rightarrow> real \<Rightarrow> real \<Rightarrow> real" where
  "nearest_step lo hi st v =
     (let k = \<lfloor>(v - lo) / st + 1 / 2\<rfloor>
      in if lo + of_int k * st \<le> hi then lo + of_int k * st else lo + of_int (k - 1) * st)"

definition range_value :: "real \<Rightarrow> real \<Rightarrow> real \<Rightarrow> real \<Rightarrow> real" where
  "range_value lo hi st x =
     (if hi < lo then (if x < lo then lo else x)
      else nearest_step lo hi (if 0 < st then st else 1) (max lo (min hi x)))"

definition slider_attributes :: "string \<Rightarrow> real \<times> real \<times> real" where
  "slider_attributes key =
     (case configs_at key of
        Own c \<Rightarrow> (cmin c, cmax c, step c)
      | Inherited \<Rightarrow> (0, 100, 1)
      | Missing \<Rightarrow> (0, 100, 1))"

text \<open>What the handler of the slider of \<open>key\<close> reads when the slider is set to \<open>raw\<close>.\<close>

definition slider_value :: "string \<Rightarrow> real \<Rightarrow> real" where
  "slider_value key raw =
     (case slider_attributes key of (lo, hi, st) \<Rightarrow> range_value lo hi st raw)"

section \<open>The carousel\<close>

text \<open>The two arrow buttons (both \<^verbatim>\<open>disabled={responses.length <= 1}\<close>) and the dots
  (rendered when \<^verbatim>\<open>responses.length > 1\<close>, one for each index of \<^verbatim>\<open>responses\<close>).\<close>

definition carousel_previous :: "state \<Rightarrow> state" where
  "carousel_previous s =
     s\<lparr>currentResponseIndex :=
         (if currentResponseIndex s > 0 then currentResponseIndex s - 1
          else int (length (responses s)) - 1)\<rparr>"

definition carousel_next :: "state \<Rightarrow> state" where
  "carousel_next s =
     s\<lparr>currentResponseIndex :=
         (if currentResponseIndex s < int (length (responses s)) - 1
          then currentResponseIndex s + 1 else 0)\<rparr>"

definition arrows_disabled :: "state \<Rightarrow> bool" where
  "arrows_disabled s = (length (responses s) \<le> 1)"

definition dots :: "state \<Rightarrow> int list" where
  "dots s = (if length (responses s) > 1 then map int [0..<length (responses s)] else [])"

definition dot_click :: "int \<Rightarrow> state \<Rightarrow> state" where
  "dot_click index s = s\<lparr>currentResponseIndex := index\<rparr>"

section \<open>The component as a transition system\<close>

text \<open>
  The component together with the submissions whose fetch has not settled yet, each
  represented by its closure. An event is what the browser delivers: an edit of the
  textarea, a submission of the form, the settling of a fetch, a slider set to a number
  (its handler then reads the value the element holds), a click in the carousel. \<open>fire\<close> is \<open>None\<close> when the page does not deliver the event: the
  control is disabled or not rendered, or there is no such outstanding submission.
  Nothing is rendered once \<^verbatim>\<open>Object.entries(parameters)\<close> throws. The user is signed in
  throughout (the component shows nothing of the form otherwise). The settling of the
  health probe and of a defaults fetch may happen at any moment, which allows more runs
  than the page has.
\<close>

record system =
  ui :: state
  outstanding :: "closure list"

datatype event =
    Typed string
  | Submitted
  | Settled nat fetch_result int string
  | Slid string real
  | DefaultsSettled fetch_result
  | HealthSettled fetch_result
  | PreviousClicked
  | NextClicked
  | DotClicked int

definition rendered :: "state \<Rightarrow> bool" where
  "rendered s = (case panel (parameters s) of Inl e \<Rightarrow> False | Inr m \<Rightarrow> True)"

definition has_slider :: "state \<Rightarrow> string \<Rightarrow> bool" where
  "has_slider s key = (case panel (parameters s) of Inl e \<Rightarrow> False | Inr m \<Rightarrow> key |\<in>| fmdom m)"

fun fire :: "(real \<Rightarrow> string) \<Rightarrow> event \<Rightarrow> system \<Rightarrow> system option" where
  "fire nts (Typed t) sys =
     (if rendered (ui sys) \<and> \<not> isLoading (ui sys)
      then Some (sys\<lparr>ui := (ui sys)\<lparr>message := t\<rparr>\<rparr>) else None)"
| "fire nts Submitted sys =
     (if rendered (ui sys) \<and> \<not> submit_disabled (ui sys)
      then (case handleSubmit (ui sys) of
              (s', None) \<Rightarrow> Some (sys\<lparr>ui := s'\<rparr>)
            | (s', Some (req, c)) \<Rightarrow> Some \<lparr> ui = s', outstanding = outstanding sys @ [c] \<rparr>)
      else None)"
| "fire nts (Settled k r now stamp) sys =
     (if k < length (outstanding sys)
      then Some \<lparr> ui = handleSubmit_settled nts (outstanding sys ! k) now stamp r (ui sys),
                  outstanding = take k (outstanding sys) @ drop (Suc k) (outstanding sys) \<rparr>
      else None)"
| "fire nts (Slid key raw) sys =
     (if has_slider (ui sys) key
      then Some (sys\<lparr>ui := onChange key (slider_value key raw) (ui sys)\<rparr>) else None)"
| "fire nts (DefaultsSettled r) sys = Some (sys\<lparr>ui := fst (loadDefaults r (ui sys))\<rparr>)"
| "fire nts (HealthSettled r) sys = Some (sys\<lparr>ui := checkHealth r (ui sys)\<rparr>)"
| "fire nts PreviousClicked sys =
     (if rendered (ui sys) \<and> responses (ui sys) \<noteq> [] \<and> \<not> arrows_disabled (ui sys)
      then Some (sys\<lparr>ui := carousel_previous (ui sys)\<rparr>) else None)"
| "fire nts NextClicked sys =
     (if rendered (ui sys) \<and> responses (ui sys) \<noteq> [] \<and> \<not> arrows_disabled (ui sys)
      then Some (sys\<lparr>ui := carousel_next (ui sys)\<rparr>) else None)"
| "fire nts (DotClicked index) sys =
     (if rendered (ui sys) \<and> index \<in> set (dots (ui sys))
      then Some (sys\<lparr>ui := dot_click index (ui sys)\<rparr>) else None)"

fun run :: "(real \<Rightarrow> string) \<Rightarrow> event list \<Rightarrow> system \<Rightarrow> system option" where
  "run nts [] sys = Some sys"
| "run nts (e # es) sys = (case fire nts e sys of None \<Rightarrow> None | Some sys' \<Rightarrow> run nts es sys')"

definition boot :: system where
  "boot = \<lparr> ui = initial, outstanding = [] \<rparr>"

section \<open>Properties\<close>

text \<open>The invariant of the response history: the current index points into the list
  whenever the list is not empty.\<close>

definition history_inv :: "state \<Rightarrow> bool" where
  "history_inv s =
     (responses s \<noteq> [] \<longrightarrow>
        0 \<le> currentResponseIndex s \<and> currentResponseIndex s < int (length (responses s)))"

text \<open>At most one submission is outstanding, and \<^verbatim>\<open>isLoading\<close> says whether one is.\<close>

definition single_flight :: "system \<Rightarrow> bool" where
  "single_flight sys =
     (length (outstanding sys) \<le> 1 \<and> (isLoading (ui sys) \<longleftrightarrow> outstanding sys \<noteq> []))"

text \<open>
  The prompts of the submissions a run of events accepts, in the order it accepts them, and
  the prompts a state accounts for: those of its records, oldest first, then those of the
  outstanding submissions.
\<close>

fun accepted :: "(real \<Rightarrow> string) \<Rightarrow> event list \<Rightarrow> system \<Rightarrow> string list" where
  "accepted nts [] sys = []"
| "accepted nts (e # es) sys =
     (case fire nts e sys of
        None \<Rightarrow> []
      | Some sys' \<Rightarrow> (if e = Submitted then [message (ui sys)] else []) @ accepted nts es sys')"

definition submitted_prompts :: "system \<Rightarrow> string list" where
  "submitted_prompts sys =
     rev (map prompt (responses (ui sys))) @ map c_message (outstanding sys)"


text \<open>The formatting of a whole number, for the examples.\<close>

definition whole_number :: "real \<Rightarrow> string" where
  "whole_number r = (if r < 0 then ''-'' else []) @ dec (nat \<lfloor>\<bar>r\<bar>\<rfloor>)"

section \<open>Theorems\<close>

subsection \<open>Reading properties\<close>

lemma member_Inr_iff: "member data n = Inr v \<longleftrightarrow> \<not> nullish data \<and> v = own_prop data n"
  by (cases data) (auto simp: nullish_def)

lemma member_nullish: "nullish data \<Longrightarrow> \<exists>e. member data n = Inl e"
  by (cases data) (auto simp: nullish_def)

subsection \<open>The health probe\<close>

text \<open>
  Claim C8. The health probe sets the status to healthy when the \<^verbatim>\<open>status\<close> field of the
  payload is the string \<^verbatim>\<open>"healthy"\<close>, to partial for every other payload that is a parsed
  value other than \<^verbatim>\<open>null\<close> (an object with another status, such as
  \<^verbatim>\<open>{status: "degraded"}\<close>, or with none), and to error when the fetch is rejected or the
  body is not JSON. A body that parses to \<^verbatim>\<open>null\<close> has no \<^verbatim>\<open>status\<close> to read: the read
  throws and the status is error as well. The \<^verbatim>\<open>ok\<close> flag of the response plays no part.
\<close>

theorem checkHealth_classifies:
  "(own_prop data ''status'' = JStr ''healthy'' \<longrightarrow>
      apiStatus (checkHealth (Response ok (Json data)) s) = ApiHealthy)
   \<and> (\<not> nullish data \<and> own_prop data ''status'' \<noteq> JStr ''healthy'' \<longrightarrow>
      apiStatus (checkHealth (Response ok (Json data)) s) = ApiPartial)
   \<and> apiStatus (checkHealth (Rejected e) s) = ApiError
   \<and> apiStatus (checkHealth (Response ok (BadJson e)) s) = ApiError
   \<and> (nullish data \<longrightarrow> apiStatus (checkHealth (Response ok (Json data)) s) = ApiError)"
  by (cases data) (auto simp: checkHealth_def nullish_def)

theorem checkHealth_classifies_witness:
  "own_prop (JObj (fmap_of_list [(''status'', JStr ''healthy'')])) ''status'' = JStr ''healthy''
   \<and> apiStatus (checkHealth (Response True
         (Json (JObj (fmap_of_list [(''status'', JStr ''healthy'')])))) initial) = ApiHealthy
   \<and> \<not> nullish (JObj (fmap_of_list [(''status'', JStr ''degraded'')]))
   \<and> own_prop (JObj (fmap_of_list [(''status'', JStr ''degraded'')])) ''status''
        \<noteq> JStr ''healthy''
   \<and> apiStatus (checkHealth (Response True
         (Json (JObj (fmap_of_list [(''status'', JStr ''degraded'')])))) initial) = ApiPartial
   \<and> nullish JNull
   \<and> apiStatus (checkHealth (Response True (Json JNull)) initial) = ApiError"
  using
    checkHealth_classifies [of "JObj (fmap_of_list [(''status'', JStr ''healthy'')])"
      True initial]
    checkHealth_classifies [of "JObj (fmap_of_list [(''status'', JStr ''degraded'')])"
      True initial]
    checkHealth_classifies [of JNull True initial]
  by (simp add: nullish_def)

subsection \<open>Submitting an empty prompt\<close>

text \<open>
  Claim C9. When the message, trimmed of surrounding white space, is empty,
  \<^verbatim>\<open>handleSubmit\<close> returns at once: no fetch is issued and the state (the history, the
  current index, the parameters and everything else) is what it was.
\<close>

theorem empty_prompt_noop:
  "trim (message s) = [] \<Longrightarrow> handleSubmit s = (s, None)"
  by (simp add: handleSubmit_def)

theorem empty_prompt_noop_witness:
  "trim (message (initial\<lparr>message := [CHR 0x20, CHR 0x09, CHR 0x0A]\<rparr>)) = []
   \<and> handleSubmit (initial\<lparr>message := [CHR 0x20, CHR 0x09, CHR 0x0A]\<rparr>)
       = (initial\<lparr>message := [CHR 0x20, CHR 0x09, CHR 0x0A]\<rparr>, None)"
  using empty_prompt_noop [of "initial\<lparr>message := [CHR 0x20, CHR 0x09, CHR 0x0A]\<rparr>"]
  by (simp add: trim_def is_space_def)

subsection \<open>The record of a settled submission\<close>

lemma responses_settled:
  "responses (handleSubmit_settled nts c now stamp r s)
     = new_record nts c now stamp r # responses s"
  by (simp add: handleSubmit_settled_def push_def)

lemma new_record_success:
  "completion_content data = Inr v \<Longrightarrow>
   new_record nts c now stamp (Response True (Json data)) =
     \<lparr> resp_id = now, prompt = c_message c,
       content = or_else v (JStr ''No response content''), timestamp = stamp,
       resp_parameters = Some (JObj (own_props (c_parameters c))), isError = None \<rparr>"
  by (simp add: new_record_def try_block_def)

lemma new_record_api_error:
  "member data ''error'' = Inr v \<Longrightarrow>
   to_string nts (or_else v (JStr ''Unknown error'')) = Some t \<Longrightarrow>
   new_record nts c now stamp (Response False (Json data)) =
     \<lparr> resp_id = now, prompt = c_message c,
       content = JStr (''Error: '' @ t), timestamp = stamp,
       resp_parameters = None, isError = Some True \<rparr>"
  by (simp add: new_record_def try_block_def)

lemma new_record_thrown:
  "try_block nts c now stamp r = Inl e \<Longrightarrow>
   new_record nts c now stamp r =
     \<lparr> resp_id = now, prompt = c_message c,
       content = JStr (''Network error: '' @ e), timestamp = stamp,
       resp_parameters = None, isError = Some True \<rparr>"
  by (simp add: new_record_def)

lemma try_block_rejected: "try_block nts c now stamp (Rejected e) = Inl e"
  by (simp add: try_block_def)

lemma try_block_bad_json: "try_block nts c now stamp (Response ok (BadJson e)) = Inl e"
  by (simp add: try_block_def)

lemma completion_content_Inr: "\<not> nullish data \<Longrightarrow> \<exists>v. completion_content data = Inr v"
  by (cases data) (auto simp: completion_content_def nullish_def)

lemma completion_content_Inl: "nullish data \<Longrightarrow> \<exists>e. completion_content data = Inl e"
  by (cases data) (auto simp: completion_content_def nullish_def)

text \<open>A run builds the success record exactly when the response is ok and its body
  parses to a value other than \<^verbatim>\<open>null\<close>; every other run builds an error record.\<close>

lemma new_record_shapes:
  "(isError (new_record nts c now stamp r) = None
      \<and> resp_parameters (new_record nts c now stamp r) = Some (JObj (own_props (c_parameters c)))
      \<and> (\<exists>data. r = Response True (Json data) \<and> \<not> nullish data))
   \<or> (isError (new_record nts c now stamp r) = Some True
      \<and> resp_parameters (new_record nts c now stamp r) = None
      \<and> \<not> (\<exists>data. r = Response True (Json data) \<and> \<not> nullish data))"
proof (cases "\<exists>data. r = Response True (Json data) \<and> \<not> nullish data")
  case True
  then obtain data where r: "r = Response True (Json data)" and d: "\<not> nullish data" by blast
  from d obtain v where "completion_content data = Inr v"
    using completion_content_Inr by blast
  then show ?thesis using r d by (auto simp: new_record_success)
next
  case False
  have "isError (new_record nts c now stamp r) = Some True
      \<and> resp_parameters (new_record nts c now stamp r) = None"
  proof (cases r)
    case (Rejected e)
    then show ?thesis by (simp add: new_record_def try_block_def)
  next
    case (Response ok b)
    show ?thesis
    proof (cases b)
      case (BadJson e)
      with Response show ?thesis by (simp add: new_record_def try_block_def)
    next
      case (Json data)
      show ?thesis
      proof (cases ok)
        case True
        with False Response Json have "nullish data" by simp
        then obtain e where "completion_content data = Inl e"
          using completion_content_Inl by blast
        with True Response Json show ?thesis by (simp add: new_record_def try_block_def)
      next
        case False
        with Response Json show ?thesis
          by (simp add: new_record_def try_block_def split: sum.splits option.splits)
      qed
    qed
  qed
  with False show ?thesis by blast
qed

lemma prompt_new_record: "prompt (new_record nts c now stamp r) = c_message c"
  by (simp add: new_record_def try_block_def completion_content_def
      split: fetch_result.splits body.splits sum.splits option.splits)

lemma handleSubmit_Some:
  "handleSubmit s = (s', Some (req, c)) \<Longrightarrow>
     trim (message s) \<noteq> [] \<and> s' = s\<lparr>isLoading := True\<rparr>
     \<and> c = \<lparr> c_message = message s, c_parameters = parameters s \<rparr>
     \<and> req = \<lparr> url = API_BASE_URL @ ''/chat/completions'', http_method = ''POST'',
                payload = Some (requestBody (message s) (parameters s)) \<rparr>"
  by (auto simp: handleSubmit_def split: if_splits)

lemma handleSubmit_hi:
  "handleSubmit (initial\<lparr>message := ''hi''\<rparr>) =
     (initial\<lparr>message := ''hi'', isLoading := True\<rparr>,
      Some (\<lparr> url = API_BASE_URL @ ''/chat/completions'', http_method = ''POST'',
               payload = Some (requestBody ''hi'' (parameters initial)) \<rparr>,
            \<lparr> c_message = ''hi'', c_parameters = parameters initial \<rparr>))"
  by (simp add: handleSubmit_def trim_def is_space_def initial_def)

subsection \<open>The three kinds of record\<close>

lemma widget_content:
  "completion_content (JObj (fmap_of_list [(''choices'', JArr [JObj (fmap_of_list
       [(''message'', JObj (fmap_of_list [(''content'', JStr ''Try this repo: acme/widget'')]))])])]))
     = Inr (JStr ''Try this repo: acme/widget'')"
  by (simp add: completion_content_def opt_member_def nullish_def)

lemma not_loaded_error:
  "member (JObj (fmap_of_list [(''error'', JStr ''model not loaded'')])) ''error''
     = Inr (JStr ''model not loaded'')"
  by simp

lemma no_error_field: "member (JObj fmempty) ''error'' = Inr JUndefined"
  by simp

text \<open>
  Claim C1, amended. Every submission that settles prepends the record of its run to the
  history. On an ok response whose body parses to a value other than \<^verbatim>\<open>null\<close>, the
  record has no \<^verbatim>\<open>isError\<close> field (it reads as false) and its content is the first
  completion's message content when that is truthy, and the literal
  \<^verbatim>\<open>No response content\<close> when it is absent or falsy. On a response that is not ok and
  whose body parses to a value other than \<^verbatim>\<open>null\<close>, the record has \<^verbatim>\<open>isError\<close> true
  and its content is \<^verbatim>\<open>Error: \<close> followed by the \<^verbatim>\<open>error\<close> field when that is truthy,
  and \<^verbatim>\<open>Error: Unknown error\<close> when it is missing or falsy. When the fetch is rejected
  or the body is not JSON, the record has \<^verbatim>\<open>isError\<close> true and its content is
  \<^verbatim>\<open>Network error: \<close> followed by the message of the failure.
\<close>

theorem settled_record_classification:
  "responses (handleSubmit_settled nts c now stamp r s)
     = new_record nts c now stamp r # responses s
   \<and> (completion_content data = Inr v \<longrightarrow>
      isError (new_record nts c now stamp (Response True (Json data))) = None
      \<and> content (new_record nts c now stamp (Response True (Json data)))
          = (if truthy v then v else JStr ''No response content''))
   \<and> (member data ''error'' = Inr v \<and> truthy v \<and> to_string nts v = Some t \<longrightarrow>
      isError (new_record nts c now stamp (Response False (Json data))) = Some True
      \<and> content (new_record nts c now stamp (Response False (Json data)))
          = JStr (''Error: '' @ t))
   \<and> (member data ''error'' = Inr v \<and> \<not> truthy v \<longrightarrow>
      isError (new_record nts c now stamp (Response False (Json data))) = Some True
      \<and> content (new_record nts c now stamp (Response False (Json data)))
          = JStr ''Error: Unknown error'')
   \<and> isError (new_record nts c now stamp (Rejected e)) = Some True
   \<and> content (new_record nts c now stamp (Rejected e)) = JStr (''Network error: '' @ e)
   \<and> isError (new_record nts c now stamp (Response ok (BadJson e))) = Some True
   \<and> content (new_record nts c now stamp (Response ok (BadJson e)))
       = JStr (''Network error: '' @ e)"
proof -
  have success: "isError (new_record nts c now stamp (Response True (Json data))) = None
      \<and> content (new_record nts c now stamp (Response True (Json data)))
          = (if truthy v then v else JStr ''No response content'')"
    if "completion_content data = Inr v"
    using that by (simp add: new_record_success or_else_def)
  have api: "isError (new_record nts c now stamp (Response False (Json data))) = Some True
      \<and> content (new_record nts c now stamp (Response False (Json data)))
          = JStr (''Error: '' @ t)"
    if "member data ''error'' = Inr v" "truthy v" "to_string nts v = Some t"
    using that by (simp add: new_record_api_error or_else_def)
  have unknown: "isError (new_record nts c now stamp (Response False (Json data))) = Some True
      \<and> content (new_record nts c now stamp (Response False (Json data)))
          = JStr ''Error: Unknown error''"
    if "member data ''error'' = Inr v" "\<not> truthy v"
    using that new_record_api_error [of data v nts "''Unknown error''" c now stamp]
    by (simp add: or_else_def)
  have thrown: "isError (new_record nts c now stamp (Rejected e)) = Some True
      \<and> content (new_record nts c now stamp (Rejected e)) = JStr (''Network error: '' @ e)"
    by (simp add: new_record_thrown try_block_rejected)
  have bad: "isError (new_record nts c now stamp (Response ok (BadJson e))) = Some True
      \<and> content (new_record nts c now stamp (Response ok (BadJson e)))
          = JStr (''Network error: '' @ e)"
    by (simp add: new_record_thrown try_block_bad_json)
  from responses_settled [of nts c now stamp r s] success api unknown thrown bad
  show ?thesis by blast
qed

theorem settled_record_classification_witness:
  "completion_content (JObj (fmap_of_list [(''choices'', JArr [JObj (fmap_of_list
       [(''message'', JObj (fmap_of_list [(''content'', JStr ''Try this repo: acme/widget'')]))])])]))
     = Inr (JStr ''Try this repo: acme/widget'')
   \<and> content (new_record whole_number
        \<lparr> c_message = ''find a beginner repo'', c_parameters = parameters initial \<rparr> 0 []
        (Response True (Json (JObj (fmap_of_list [(''choices'', JArr [JObj (fmap_of_list
           [(''message'', JObj (fmap_of_list
              [(''content'', JStr ''Try this repo: acme/widget'')]))])])])))))
       = JStr ''Try this repo: acme/widget''
   \<and> member (JObj (fmap_of_list [(''error'', JStr ''model not loaded'')])) ''error''
       = Inr (JStr ''model not loaded'')
   \<and> truthy (JStr ''model not loaded'')
   \<and> to_string whole_number (JStr ''model not loaded'') = Some ''model not loaded''
   \<and> content (new_record whole_number
        \<lparr> c_message = ''find a beginner repo'', c_parameters = parameters initial \<rparr> 0 []
        (Response False (Json (JObj (fmap_of_list [(''error'', JStr ''model not loaded'')])))))
       = JStr ''Error: model not loaded''
   \<and> member (JObj fmempty) ''error'' = Inr JUndefined
   \<and> \<not> truthy JUndefined
   \<and> content (new_record whole_number
        \<lparr> c_message = ''find a beginner repo'', c_parameters = parameters initial \<rparr> 0 []
        (Response False (Json (JObj fmempty))))
       = JStr ''Error: Unknown error''"
proof -
  note a = settled_record_classification [where nts = whole_number
      and c = "\<lparr> c_message = ''find a beginner repo'', c_parameters = parameters initial \<rparr>"
      and now = 0 and stamp = "[]"
      and data = "JObj (fmap_of_list [(''choices'', JArr [JObj (fmap_of_list
         [(''message'', JObj (fmap_of_list
            [(''content'', JStr ''Try this repo: acme/widget'')]))])])])"
      and v = "JStr ''Try this repo: acme/widget''"]
  note b = settled_record_classification [where nts = whole_number
      and c = "\<lparr> c_message = ''find a beginner repo'', c_parameters = parameters initial \<rparr>"
      and now = 0 and stamp = "[]"
      and data = "JObj (fmap_of_list [(''error'', JStr ''model not loaded'')])"
      and v = "JStr ''model not loaded''" and t = "''model not loaded''"]
  note c = settled_record_classification [where nts = whole_number
      and c = "\<lparr> c_message = ''find a beginner repo'', c_parameters = parameters initial \<rparr>"
      and now = 0 and stamp = "[]"
      and data = "JObj fmempty" and v = JUndefined]
  have t: "truthy (JStr ''model not loaded'')"
    "to_string whole_number (JStr ''model not loaded'') = Some ''model not loaded''"
    "\<not> truthy JUndefined"
    "truthy (JStr ''Try this repo: acme/widget'')"
    by simp_all
  from a widget_content t(4)
  have 1: "content (new_record whole_number
        \<lparr> c_message = ''find a beginner repo'', c_parameters = parameters initial \<rparr> 0 []
        (Response True (Json (JObj (fmap_of_list [(''choices'', JArr [JObj (fmap_of_list
           [(''message'', JObj (fmap_of_list
              [(''content'', JStr ''Try this repo: acme/widget'')]))])])])))))
       = JStr ''Try this repo: acme/widget''"
    by (simp only: if_True simp_thms)
  from b not_loaded_error t(1,2)
  have 2: "content (new_record whole_number
        \<lparr> c_message = ''find a beginner repo'', c_parameters = parameters initial \<rparr> 0 []
        (Response False (Json (JObj (fmap_of_list [(''error'', JStr ''model not loaded'')])))))
       = JStr (''Error: '' @ ''model not loaded'')"
    by (simp only: simp_thms)
  from c no_error_field t(3)
  have 3: "content (new_record whole_number
        \<lparr> c_message = ''find a beginner repo'', c_parameters = parameters initial \<rparr> 0 []
        (Response False (Json (JObj fmempty))))
       = JStr ''Error: Unknown error''"
    by (simp only: simp_thms)
  from 1 2 3 widget_content not_loaded_error no_error_field t show ?thesis
    by simp
qed

text \<open>
  The claim as first stated fails where the field is present and falsy. The first
  completion's content is the empty string, and the record's content is the literal, not
  the empty string; the \<^verbatim>\<open>error\<close> field is the empty string, and the record's content is
  \<^verbatim>\<open>Error: Unknown error\<close>, not \<^verbatim>\<open>Error: \<close> followed by the field.
\<close>

theorem empty_content_counterexample:
  "completion_content (JObj (fmap_of_list [(''choices'', JArr [JObj (fmap_of_list
       [(''message'', JObj (fmap_of_list [(''content'', JStr [])]))])])]))
     = Inr (JStr [])
   \<and> content (new_record whole_number
        \<lparr> c_message = ''hi'', c_parameters = parameters initial \<rparr> 0 []
        (Response True (Json (JObj (fmap_of_list [(''choices'', JArr [JObj (fmap_of_list
           [(''message'', JObj (fmap_of_list [(''content'', JStr [])]))])])])))))
       = JStr ''No response content''
   \<and> JStr ''No response content'' \<noteq> JStr []
   \<and> member (JObj (fmap_of_list [(''error'', JStr [])])) ''error'' = Inr (JStr [])
   \<and> content (new_record whole_number
        \<lparr> c_message = ''hi'', c_parameters = parameters initial \<rparr> 0 []
        (Response False (Json (JObj (fmap_of_list [(''error'', JStr [])])))))
       = JStr ''Error: Unknown error''
   \<and> JStr ''Error: Unknown error'' \<noteq> JStr (''Error: '' @ [])"
  by (simp add: completion_content_def opt_member_def nullish_def new_record_def try_block_def
      or_else_def)

subsection \<open>The fallback for a falsy content\<close>

lemma empty_content:
  "completion_content (JObj (fmap_of_list [(''choices'', JArr [JObj (fmap_of_list
       [(''message'', JObj (fmap_of_list [(''content'', JStr [])]))])])]))
     = Inr (JStr [])"
  by (simp add: completion_content_def opt_member_def nullish_def)

lemma null_content:
  "completion_content (JObj (fmap_of_list [(''choices'', JArr [JObj (fmap_of_list
       [(''message'', JObj (fmap_of_list [(''content'', JNull)]))])])]))
     = Inr JNull"
  by (simp add: completion_content_def opt_member_def nullish_def)

text \<open>
  Claim C10. On an ok response whose first completion's message content is present but
  falsy (the empty string, \<^verbatim>\<open>null\<close>, and likewise \<^verbatim>\<open>0\<close> or \<^verbatim>\<open>false\<close>) or absent, the
  record prepended to the history has the literal \<^verbatim>\<open>No response content\<close> as its content,
  and it is not an error record.
\<close>

theorem falsy_content_falls_back:
  "completion_content data = Inr v \<Longrightarrow> \<not> truthy v \<Longrightarrow>
     responses (handleSubmit_settled nts c now stamp (Response True (Json data)) s)
       = new_record nts c now stamp (Response True (Json data)) # responses s
     \<and> content (new_record nts c now stamp (Response True (Json data)))
         = JStr ''No response content''
     \<and> isError (new_record nts c now stamp (Response True (Json data))) = None"
  by (simp add: responses_settled new_record_success or_else_def)

theorem falsy_content_falls_back_witness:
  "completion_content (JObj (fmap_of_list [(''choices'', JArr [JObj (fmap_of_list
       [(''message'', JObj (fmap_of_list [(''content'', JStr [])]))])])]))
     = Inr (JStr [])
   \<and> \<not> truthy (JStr [])
   \<and> content (new_record whole_number
         \<lparr> c_message = ''hi'', c_parameters = parameters initial \<rparr> 0 []
         (Response True (Json (JObj (fmap_of_list [(''choices'', JArr [JObj (fmap_of_list
           [(''message'', JObj (fmap_of_list [(''content'', JStr [])]))])])])))))
       = JStr ''No response content''
   \<and> completion_content (JObj (fmap_of_list [(''choices'', JArr [JObj (fmap_of_list
       [(''message'', JObj (fmap_of_list [(''content'', JNull)]))])])]))
     = Inr JNull
   \<and> \<not> truthy JNull
   \<and> content (new_record whole_number
         \<lparr> c_message = ''hi'', c_parameters = parameters initial \<rparr> 0 []
         (Response True (Json (JObj (fmap_of_list [(''choices'', JArr [JObj (fmap_of_list
           [(''message'', JObj (fmap_of_list [(''content'', JNull)]))])])])))))
       = JStr ''No response content''"
proof -
  have f: "\<not> truthy (JStr [])" "\<not> truthy JNull" by simp_all
  note a = falsy_content_falls_back [OF empty_content f(1), of whole_number
      "\<lparr> c_message = ''hi'', c_parameters = parameters initial \<rparr>" 0 "[]" initial]
  note b = falsy_content_falls_back [OF null_content f(2), of whole_number
      "\<lparr> c_message = ''hi'', c_parameters = parameters initial \<rparr>" 0 "[]" initial]
  from a b empty_content null_content f show ?thesis by (simp only: simp_thms)
qed

subsection \<open>One record for each settled submission\<close>

text \<open>
  Claim C3, amended. A submission that was accepted in state \<open>s\<close> prepends, when it
  settles, exactly one record to the history as it then is, whatever the outcome, and the
  prompt of the record is the message of \<open>s\<close>. The success record (ok response, body
  other than \<^verbatim>\<open>null\<close>) carries a copy of the parameters of \<open>s\<close>; every other record is an
  error record and carries no parameters.
\<close>

theorem settled_submission_one_record:
  assumes "handleSubmit s = (s', Some (req, c))"
  shows "responses (handleSubmit_settled nts c now stamp r s'')
           = new_record nts c now stamp r # responses s''
         \<and> prompt (new_record nts c now stamp r) = message s
         \<and> (isError (new_record nts c now stamp r) = None
              \<and> resp_parameters (new_record nts c now stamp r)
                  = Some (JObj (own_props (parameters s)))
              \<and> (\<exists>data. r = Response True (Json data) \<and> \<not> nullish data)
            \<or> isError (new_record nts c now stamp r) = Some True
              \<and> resp_parameters (new_record nts c now stamp r) = None
              \<and> \<not> (\<exists>data. r = Response True (Json data) \<and> \<not> nullish data))
         \<and> (\<forall>m. parameters s = JObj m \<longrightarrow> JObj (own_props (parameters s)) = parameters s)"
proof -
  from assms have c: "c = \<lparr> c_message = message s, c_parameters = parameters s \<rparr>"
    using handleSubmit_Some by blast
  then have cm: "c_message c = message s" and cp: "c_parameters c = parameters s"
    by simp_all
  have one: "responses (handleSubmit_settled nts c now stamp r s'')
           = new_record nts c now stamp r # responses s''"
    by (rule responses_settled)
  have p: "prompt (new_record nts c now stamp r) = message s"
    using cm by (simp add: prompt_new_record)
  have copy: "\<forall>m. parameters s = JObj m \<longrightarrow> JObj (own_props (parameters s)) = parameters s"
    by simp
  from new_record_shapes [of nts c now stamp r] one p copy show ?thesis
    unfolding cp by blast
qed

theorem settled_submission_one_record_witness:
  "handleSubmit (initial\<lparr>message := ''hi''\<rparr>) =
     (initial\<lparr>message := ''hi'', isLoading := True\<rparr>,
      Some (\<lparr> url = API_BASE_URL @ ''/chat/completions'', http_method = ''POST'',
               payload = Some (requestBody ''hi'' (parameters initial)) \<rparr>,
            \<lparr> c_message = ''hi'', c_parameters = parameters initial \<rparr>))
   \<and> responses (handleSubmit_settled whole_number
         \<lparr> c_message = ''hi'', c_parameters = parameters initial \<rparr> 0 []
         (Response True (Json (JObj fmempty))) (initial\<lparr>message := ''hi'', isLoading := True\<rparr>))
       = [new_record whole_number \<lparr> c_message = ''hi'', c_parameters = parameters initial \<rparr>
            0 [] (Response True (Json (JObj fmempty)))]
   \<and> resp_parameters (new_record whole_number
         \<lparr> c_message = ''hi'', c_parameters = parameters initial \<rparr> 0 []
         (Response True (Json (JObj fmempty))))
       = Some (parameters initial)"
proof -
  note t = settled_submission_one_record [OF handleSubmit_hi, of whole_number 0 "[]"
      "Response True (Json (JObj fmempty))" "initial\<lparr>message := ''hi'', isLoading := True\<rparr>"]
  have ok: "\<exists>data. Response True (Json (JObj fmempty)) = Response True (Json data)
              \<and> \<not> nullish data"
    by (simp add: nullish_def)
  have obj: "parameters (initial\<lparr>message := ''hi''\<rparr>)
      = JObj (own_props (parameters initial))"
    by (simp add: initial_def)
  have e: "responses (initial\<lparr>message := ''hi'', isLoading := True\<rparr>) = []"
    by (simp add: initial_def)
  from t ok have "resp_parameters (new_record whole_number
         \<lparr> c_message = ''hi'', c_parameters = parameters initial \<rparr> 0 []
         (Response True (Json (JObj fmempty))))
       = Some (JObj (own_props (parameters (initial\<lparr>message := ''hi''\<rparr>))))"
    by blast
  then have snap: "resp_parameters (new_record whole_number
         \<lparr> c_message = ''hi'', c_parameters = parameters initial \<rparr> 0 []
         (Response True (Json (JObj fmempty))))
       = Some (parameters initial)"
    by (simp add: initial_def)
  from t e have "responses (handleSubmit_settled whole_number
         \<lparr> c_message = ''hi'', c_parameters = parameters initial \<rparr> 0 []
         (Response True (Json (JObj fmempty))) (initial\<lparr>message := ''hi'', isLoading := True\<rparr>))
       = [new_record whole_number \<lparr> c_message = ''hi'', c_parameters = parameters initial \<rparr>
            0 [] (Response True (Json (JObj fmempty)))]"
    by simp
  with snap handleSubmit_hi show ?thesis by (simp only: simp_thms)
qed

text \<open>
  The claim as first stated fails for the two kinds of error record: neither the record
  of an error response nor the record of a rejected fetch has a \<^verbatim>\<open>parameters\<close> field.
\<close>

theorem error_record_without_snapshot_counterexample:
  "resp_parameters (new_record whole_number
       \<lparr> c_message = ''hi'', c_parameters = parameters initial \<rparr> 0 []
       (Response False (Json (JObj (fmap_of_list [(''error'', JStr ''model not loaded'')])))))
     = None
   \<and> resp_parameters (new_record whole_number
       \<lparr> c_message = ''hi'', c_parameters = parameters initial \<rparr> 0 []
       (Rejected ''Failed to fetch''))
     = None
   \<and> responses (handleSubmit_settled whole_number
       \<lparr> c_message = ''hi'', c_parameters = parameters initial \<rparr> 0 []
       (Rejected ''Failed to fetch'') (initial\<lparr>message := ''hi'', isLoading := True\<rparr>))
     = [\<lparr> resp_id = 0, prompt = ''hi'', content = JStr ''Network error: Failed to fetch'',
          timestamp = [], resp_parameters = None, isError = Some True \<rparr>]"
  by (simp add: new_record_def try_block_def or_else_def handleSubmit_settled_def push_def
      initial_def)

subsection \<open>The invariant of the history\<close>

lemma history_inv_push: "history_inv (push rec s)"
  by (simp add: history_inv_def push_def)

lemma history_inv_settled: "history_inv (handleSubmit_settled nts c now stamp r s)"
  by (simp add: history_inv_def handleSubmit_settled_def push_def)

lemma history_inv_next: "history_inv s \<Longrightarrow> history_inv (carousel_next s)"
  by (auto simp: history_inv_def carousel_next_def)

lemma history_inv_previous: "history_inv s \<Longrightarrow> history_inv (carousel_previous s)"
  by (auto simp: history_inv_def carousel_previous_def)

lemma history_inv_dot: "index \<in> set (dots s) \<Longrightarrow> history_inv (dot_click index s)"
  by (auto simp: history_inv_def dots_def dot_click_def split: if_splits)

lemma history_inv_frame:
  "responses s' = responses s \<Longrightarrow> currentResponseIndex s' = currentResponseIndex s \<Longrightarrow>
   history_inv s \<Longrightarrow> history_inv s'"
  by (simp add: history_inv_def)

lemma handleSubmit_history:
  "handleSubmit s = (s', x) \<Longrightarrow>
   responses s' = responses s \<and> currentResponseIndex s' = currentResponseIndex s"
  by (auto simp: handleSubmit_def split: if_splits)

lemma checkHealth_history:
  "responses (checkHealth r s) = responses s
   \<and> currentResponseIndex (checkHealth r s) = currentResponseIndex s"
  by (simp add: checkHealth_def split: fetch_result.splits body.splits sum.splits)

lemma loadDefaults_history:
  "responses (fst (loadDefaults r s)) = responses s
   \<and> currentResponseIndex (fst (loadDefaults r s)) = currentResponseIndex s"
  by (simp add: loadDefaults_def split: fetch_result.splits body.splits sum.splits)

lemma onChange_history:
  "responses (onChange key raw s) = responses s
   \<and> currentResponseIndex (onChange key raw s) = currentResponseIndex s"
  by (simp add: onChange_def)

lemma fire_history_inv:
  assumes "history_inv (ui sys)" and "fire nts e sys = Some sys'"
  shows "history_inv (ui sys')"
proof (cases e)
  case (Typed t)
  with assms show ?thesis by (auto simp: history_inv_def split: if_splits)
next
  case Submitted
  with assms show ?thesis
    by (auto split: if_splits prod.splits option.splits
        dest!: handleSubmit_history intro: history_inv_frame)
next
  case (Settled k r now stamp)
  with assms show ?thesis by (auto simp: history_inv_settled split: if_splits)
next
  case (Slid key raw)
  with assms show ?thesis
    by (auto split: if_splits intro: history_inv_frame simp: onChange_history)
next
  case (DefaultsSettled r)
  with assms show ?thesis by (auto intro: history_inv_frame simp: loadDefaults_history)
next
  case (HealthSettled r)
  with assms show ?thesis by (auto intro: history_inv_frame simp: checkHealth_history)
next
  case PreviousClicked
  with assms show ?thesis by (auto simp: history_inv_previous split: if_splits)
next
  case NextClicked
  with assms show ?thesis by (auto simp: history_inv_next split: if_splits)
next
  case (DotClicked index)
  with assms show ?thesis by (auto simp: history_inv_dot split: if_splits)
qed

lemma run_history_inv:
  "history_inv (ui sys) \<Longrightarrow> run nts es sys = Some sys' \<Longrightarrow> history_inv (ui sys')"
proof (induction es arbitrary: sys)
  case Nil
  then show ?case by simp
next
  case (Cons e es)
  then show ?case by (auto split: option.splits dest: fire_history_inv)
qed

lemma history_inv_boot: "history_inv (ui boot)"
  by (simp add: history_inv_def boot_def initial_def)

text \<open>
  Claim C7. The current index points into the history whenever the history is not empty:
  this holds initially and in every state the component reaches, and each operation on
  the history keeps it. Appending a record (for a success and for an error alike) sets
  the index to 0; the two arrows keep the invariant; a dot exists only for an index of the
  list. The component has no operation that clears the history.
\<close>

theorem history_invariant:
  "history_inv initial
   \<and> (run nts es boot = Some sys \<longrightarrow> history_inv (ui sys))
   \<and> history_inv (push rec s) \<and> currentResponseIndex (push rec s) = 0
   \<and> history_inv (handleSubmit_settled nts c now stamp r s)
   \<and> currentResponseIndex (handleSubmit_settled nts c now stamp r s) = 0
   \<and> (history_inv s \<longrightarrow> history_inv (carousel_next s) \<and> history_inv (carousel_previous s))
   \<and> (\<forall>index \<in> set (dots s). history_inv (dot_click index s))"
proof -
  have start: "history_inv initial"
    using history_inv_boot by (simp add: boot_def)
  have reach: "run nts es boot = Some sys \<longrightarrow> history_inv (ui sys)"
    using run_history_inv [OF history_inv_boot] by blast
  have reset: "currentResponseIndex (push rec s) = 0"
    by (simp add: push_def)
  have reset': "currentResponseIndex (handleSubmit_settled nts c now stamp r s) = 0"
    by (simp add: handleSubmit_settled_def push_def)
  have arrows: "history_inv s \<longrightarrow> history_inv (carousel_next s) \<and> history_inv (carousel_previous s)"
    by (simp add: history_inv_next history_inv_previous)
  have jump: "\<forall>index \<in> set (dots s). history_inv (dot_click index s)"
    by (simp add: history_inv_dot)
  from start reach reset reset' arrows jump show ?thesis
    by (simp add: history_inv_push history_inv_settled)
qed

lemma run_example:
  "run whole_number
     [Typed ''hi'', Submitted, Settled 0 (Rejected ''Failed to fetch'') 1 ''now'',
      Submitted, Settled 0 (Response True (Json (JObj fmempty))) 2 ''later'']
     boot
   = Some \<lparr> ui = initial\<lparr> message := ''hi'',
               responses :=
                 [new_record whole_number
                    \<lparr> c_message = ''hi'', c_parameters = parameters initial \<rparr> 2 ''later''
                    (Response True (Json (JObj fmempty))),
                  new_record whole_number
                    \<lparr> c_message = ''hi'', c_parameters = parameters initial \<rparr> 1 ''now''
                    (Rejected ''Failed to fetch'')] \<rparr>,
             outstanding = [] \<rparr>"
  by (simp add: boot_def initial_def rendered_def panel_def entries_def nullish_def
      submit_disabled_def trim_def is_space_def handleSubmit_def handleSubmit_settled_def
      push_def)

theorem history_invariant_witness:
  "history_inv (initial\<lparr> message := ''hi'',
               responses :=
                 [new_record whole_number
                    \<lparr> c_message = ''hi'', c_parameters = parameters initial \<rparr> 2 ''later''
                    (Response True (Json (JObj fmempty))),
                  new_record whole_number
                    \<lparr> c_message = ''hi'', c_parameters = parameters initial \<rparr> 1 ''now''
                    (Rejected ''Failed to fetch'')] \<rparr>)
   \<and> history_inv (carousel_next (initial\<lparr> message := ''hi'',
               responses :=
                 [new_record whole_number
                    \<lparr> c_message = ''hi'', c_parameters = parameters initial \<rparr> 2 ''later''
                    (Response True (Json (JObj fmempty))),
                  new_record whole_number
                    \<lparr> c_message = ''hi'', c_parameters = parameters initial \<rparr> 1 ''now''
                    (Rejected ''Failed to fetch'')] \<rparr>))
   \<and> history_inv (carousel_previous (initial\<lparr> message := ''hi'',
               responses :=
                 [new_record whole_number
                    \<lparr> c_message = ''hi'', c_parameters = parameters initial \<rparr> 2 ''later''
                    (Response True (Json (JObj fmempty))),
                  new_record whole_number
                    \<lparr> c_message = ''hi'', c_parameters = parameters initial \<rparr> 1 ''now''
                    (Rejected ''Failed to fetch'')] \<rparr>))
   \<and> 1 \<in> set (dots (initial\<lparr> message := ''hi'',
               responses :=
                 [new_record whole_number
                    \<lparr> c_message = ''hi'', c_parameters = parameters initial \<rparr> 2 ''later''
                    (Response True (Json (JObj fmempty))),
                  new_record whole_number
                    \<lparr> c_message = ''hi'', c_parameters = parameters initial \<rparr> 1 ''now''
                    (Rejected ''Failed to fetch'')] \<rparr>))
   \<and> history_inv (dot_click 1 (initial\<lparr> message := ''hi'',
               responses :=
                 [new_record whole_number
                    \<lparr> c_message = ''hi'', c_parameters = parameters initial \<rparr> 2 ''later''
                    (Response True (Json (JObj fmempty))),
                  new_record whole_number
                    \<lparr> c_message = ''hi'', c_parameters = parameters initial \<rparr> 1 ''now''
                    (Rejected ''Failed to fetch'')] \<rparr>))"
proof -
  let ?s = "initial\<lparr> message := ''hi'',
               responses :=
                 [new_record whole_number
                    \<lparr> c_message = ''hi'', c_parameters = parameters initial \<rparr> 2 ''later''
                    (Response True (Json (JObj fmempty))),
                  new_record whole_number
                    \<lparr> c_message = ''hi'', c_parameters = parameters initial \<rparr> 1 ''now''
                    (Rejected ''Failed to fetch'')] \<rparr>"
  note t = history_invariant [where nts = whole_number
      and es = "[Typed ''hi'', Submitted, Settled 0 (Rejected ''Failed to fetch'') 1 ''now'',
        Submitted, Settled 0 (Response True (Json (JObj fmempty))) 2 ''later'']"
      and sys = "\<lparr> ui = ?s, outstanding = [] \<rparr>" and s = ?s]
  from t run_example have inv: "history_inv ?s" by simp
  have dot: "1 \<in> set (dots ?s)" by (simp add: dots_def)
  from t inv have arrows: "history_inv (carousel_next ?s) \<and> history_inv (carousel_previous ?s)"
    by blast
  from t dot have "history_inv (dot_click 1 ?s)" by blast
  with inv arrows dot show ?thesis by blast
qed

subsection \<open>One submission at a time\<close>

lemma checkHealth_isLoading: "isLoading (checkHealth r s) = isLoading s"
  by (simp add: checkHealth_def split: fetch_result.splits body.splits sum.splits)

lemma loadDefaults_isLoading: "isLoading (fst (loadDefaults r s)) = isLoading s"
  by (simp add: loadDefaults_def split: fetch_result.splits body.splits sum.splits)

lemma fire_single_flight:
  assumes "single_flight sys" and "fire nts e sys = Some sys'"
  shows "single_flight sys'"
proof (cases e)
  case (Typed t)
  with assms show ?thesis by (auto simp: single_flight_def split: if_splits)
next
  case Submitted
  with assms show ?thesis
    by (auto simp: single_flight_def submit_disabled_def handleSubmit_def split: if_splits)
next
  case (Settled k r now stamp)
  with assms show ?thesis
    by (auto simp: single_flight_def handleSubmit_settled_def push_def split: if_splits)
next
  case (Slid key raw)
  with assms show ?thesis by (auto simp: single_flight_def onChange_def split: if_splits)
next
  case (DefaultsSettled r)
  with assms show ?thesis by (auto simp: single_flight_def loadDefaults_isLoading)
next
  case (HealthSettled r)
  with assms show ?thesis by (auto simp: single_flight_def checkHealth_isLoading)
next
  case PreviousClicked
  with assms show ?thesis by (auto simp: single_flight_def carousel_previous_def split: if_splits)
next
  case NextClicked
  with assms show ?thesis by (auto simp: single_flight_def carousel_next_def split: if_splits)
next
  case (DotClicked index)
  with assms show ?thesis by (auto simp: single_flight_def dot_click_def split: if_splits)
qed

lemma run_single_flight:
  "single_flight sys \<Longrightarrow> run nts es sys = Some sys' \<Longrightarrow> single_flight sys'"
proof (induction es arbitrary: sys)
  case Nil
  then show ?case by simp
next
  case (Cons e es)
  then show ?case by (auto split: option.splits dest: fire_single_flight)
qed

lemma single_flight_boot: "single_flight boot"
  by (simp add: single_flight_def boot_def initial_def)

lemma checkHealth_responses: "responses (checkHealth r s) = responses s"
  by (simp add: checkHealth_def split: fetch_result.splits body.splits sum.splits)

lemma loadDefaults_responses: "responses (fst (loadDefaults r s)) = responses s"
  by (simp add: loadDefaults_def split: fetch_result.splits body.splits sum.splits)

lemma fire_submitted_prompts:
  assumes "single_flight sys" and "fire nts e sys = Some sys'"
  shows "submitted_prompts sys'
           = submitted_prompts sys @ (if e = Submitted then [message (ui sys)] else [])"
proof (cases e)
  case (Typed t)
  with assms show ?thesis by (auto simp: submitted_prompts_def split: if_splits)
next
  case Submitted
  with assms show ?thesis
    by (auto simp: submitted_prompts_def submit_disabled_def handleSubmit_def split: if_splits)
next
  case (Settled k r now stamp)
  with assms(2) have k: "k < length (outstanding sys)"
    by (simp split: if_splits)
  with assms(1) have "k = 0" and "length (outstanding sys) = 1"
    by (simp_all add: single_flight_def)
  then obtain c where c: "outstanding sys = [c]"
    by (cases "outstanding sys") simp_all
  with Settled assms(2) \<open>k = 0\<close> show ?thesis
    by (auto simp: submitted_prompts_def responses_settled prompt_new_record)
next
  case (Slid key raw)
  with assms show ?thesis
    by (auto simp: submitted_prompts_def onChange_def split: if_splits)
next
  case (DefaultsSettled r)
  with assms show ?thesis by (auto simp: submitted_prompts_def loadDefaults_responses)
next
  case (HealthSettled r)
  with assms show ?thesis by (auto simp: submitted_prompts_def checkHealth_responses)
next
  case PreviousClicked
  with assms show ?thesis
    by (auto simp: submitted_prompts_def carousel_previous_def split: if_splits)
next
  case NextClicked
  with assms show ?thesis
    by (auto simp: submitted_prompts_def carousel_next_def split: if_splits)
next
  case (DotClicked index)
  with assms show ?thesis
    by (auto simp: submitted_prompts_def dot_click_def split: if_splits)
qed

lemma run_submitted_prompts:
  "single_flight sys \<Longrightarrow> run nts es sys = Some sys' \<Longrightarrow>
     submitted_prompts sys' = submitted_prompts sys @ accepted nts es sys"
proof (induction es arbitrary: sys)
  case Nil
  then show ?case by simp
next
  case (Cons e es)
  from Cons.prems(2) obtain mid where mid: "fire nts e sys = Some mid"
    and rest: "run nts es mid = Some sys'"
    by (auto split: option.splits)
  from Cons.prems(1) mid have sf: "single_flight mid" by (rule fire_single_flight)
  have "submitted_prompts sys' = submitted_prompts mid @ accepted nts es mid"
    by (rule Cons.IH [OF sf rest])
  with fire_submitted_prompts [OF Cons.prems(1) mid] mid show ?case by simp
qed


text \<open>
  Claim C2, amended. In every state the component reaches, at most one submission is
  outstanding, and while one is, \<^verbatim>\<open>isLoading\<close> is set and the submit button is disabled, so
  that the form delivers no further submission: no fetch is issued and no record is
  appended for it. The prompts of the records, oldest first, followed by the prompt of the
  outstanding submission, are the prompts of the accepted submissions in the order of
  their acceptance. The guard is the disabled button; \<^verbatim>\<open>handleSubmit\<close> has none, and no
  Busy condition is raised.
\<close>

theorem submit_blocked_while_in_flight:
  assumes "run nts es boot = Some sys"
  shows "length (outstanding sys) \<le> 1
         \<and> (outstanding sys \<noteq> [] \<longrightarrow>
              isLoading (ui sys) \<and> submit_disabled (ui sys) \<and> fire nts Submitted sys = None)
         \<and> rev (map prompt (responses (ui sys))) @ map c_message (outstanding sys)
             = accepted nts es boot"
proof -
  from run_single_flight [OF single_flight_boot assms]
  have gate: "length (outstanding sys) \<le> 1
         \<and> (outstanding sys \<noteq> [] \<longrightarrow>
              isLoading (ui sys) \<and> submit_disabled (ui sys) \<and> fire nts Submitted sys = None)"
    by (auto simp: single_flight_def submit_disabled_def)
  have "submitted_prompts boot = []"
    by (simp add: submitted_prompts_def boot_def initial_def)
  with run_submitted_prompts [OF single_flight_boot assms]
  have "rev (map prompt (responses (ui sys))) @ map c_message (outstanding sys)
             = accepted nts es boot"
    by (simp add: submitted_prompts_def)
  with gate show ?thesis by blast
qed

lemma accepted_example: "accepted whole_number [Typed ''hi'', Submitted] boot = [''hi'']"
  by (simp add: boot_def initial_def rendered_def panel_def entries_def nullish_def
      submit_disabled_def trim_def is_space_def handleSubmit_def handleSubmit_settled_def
      push_def)

lemma second_submit_not_delivered: "run whole_number [Typed ''hi'', Submitted, Submitted] boot = None"
  by (simp add: boot_def initial_def rendered_def panel_def entries_def nullish_def
      submit_disabled_def trim_def is_space_def handleSubmit_def handleSubmit_settled_def
      push_def)
theorem submit_blocked_while_in_flight_witness:
  "run whole_number [Typed ''hi'', Submitted] boot
     = Some \<lparr> ui = initial\<lparr>message := ''hi'', isLoading := True\<rparr>,
              outstanding = [\<lparr> c_message = ''hi'', c_parameters = parameters initial \<rparr>] \<rparr>
   \<and> outstanding \<lparr> ui = initial\<lparr>message := ''hi'', isLoading := True\<rparr>,
              outstanding = [\<lparr> c_message = ''hi'', c_parameters = parameters initial \<rparr>] \<rparr>
       \<noteq> []
   \<and> fire whole_number Submitted
        \<lparr> ui = initial\<lparr>message := ''hi'', isLoading := True\<rparr>,
          outstanding = [\<lparr> c_message = ''hi'', c_parameters = parameters initial \<rparr>] \<rparr>
       = None
   \<and> accepted whole_number [Typed ''hi'', Submitted] boot = [''hi'']"
proof -
  have r: "run whole_number [Typed ''hi'', Submitted] boot
     = Some \<lparr> ui = initial\<lparr>message := ''hi'', isLoading := True\<rparr>,
              outstanding = [\<lparr> c_message = ''hi'', c_parameters = parameters initial \<rparr>] \<rparr>"
    by (simp add: boot_def initial_def rendered_def panel_def entries_def nullish_def
        submit_disabled_def trim_def is_space_def handleSubmit_def)
  have n: "outstanding \<lparr> ui = initial\<lparr>message := ''hi'', isLoading := True\<rparr>,
              outstanding = [\<lparr> c_message = ''hi'', c_parameters = parameters initial \<rparr>] \<rparr>
       \<noteq> []"
    by simp
  from submit_blocked_while_in_flight [OF r] n
  have "fire whole_number Submitted
        \<lparr> ui = initial\<lparr>message := ''hi'', isLoading := True\<rparr>,
          outstanding = [\<lparr> c_message = ''hi'', c_parameters = parameters initial \<rparr>] \<rparr>
       = None"
    by blast
  with r n accepted_example show ?thesis by blast
qed

text \<open>
  The claim as first stated fails for \<^verbatim>\<open>handleSubmit\<close> itself: called again while the
  first submission is in flight, it issues a second fetch.
\<close>

theorem handleSubmit_unguarded_counterexample:
  "isLoading (fst (handleSubmit (initial\<lparr>message := ''hi''\<rparr>)))
   \<and> snd (handleSubmit (fst (handleSubmit (initial\<lparr>message := ''hi''\<rparr>))))
       = Some (\<lparr> url = ''http://localhost:5000/chat/completions'', http_method = ''POST'',
                 payload = Some (requestBody ''hi'' (parameters initial)) \<rparr>,
               \<lparr> c_message = ''hi'', c_parameters = parameters initial \<rparr>)"
  by (simp add: handleSubmit_def trim_def is_space_def initial_def API_BASE_URL_def)

subsection \<open>Moving a slider\<close>











subsection \<open>Loading the defaults\<close>

lemma loadDefaults_thrown:
  "loadDefaults (Rejected e) s = (s, ''Failed to load defaults: '' @ e)"
  "loadDefaults (Response ok (BadJson e)) s = (s, ''Failed to load defaults: '' @ e)"
  "nullish data \<Longrightarrow>
     \<exists>e. loadDefaults (Response ok (Json data)) s = (s, ''Failed to load defaults: '' @ e)"
  by (cases data; auto simp: loadDefaults_def nullish_def)+

lemma loadDefaults_replaces:
  "\<not> nullish data \<Longrightarrow>
     loadDefaults (Response ok (Json data)) s
       = (s\<lparr>parameters := own_prop data ''defaults''\<rparr>, ''Parameters reset to defaults!'')"
  by (cases data) (auto simp: loadDefaults_def nullish_def)

text \<open>
  Claim C5. \<^verbatim>\<open>loadDefaults\<close> leaves the parameters as they are and reports the failure when
  the fetch is rejected, the body is not JSON, or the body is \<^verbatim>\<open>null\<close> (the lemmas above).
  It does not look at the \<^verbatim>\<open>ok\<close> flag, as \<^verbatim>\<open>handleSubmit\<close> does: when the endpoint answers
  with an error status and a JSON body, here \<^verbatim>\<open>{error: "defaults unavailable"}\<close>, it
  replaces the parameters by the missing \<^verbatim>\<open>defaults\<close> field, that is by \<^verbatim>\<open>undefined\<close>,
  and shows the alert of a success; the panel cannot be rendered from that value.
\<close>

theorem loadDefaults_error_status_replaces:
  "loadDefaults
     (Response False (Json (JObj (fmap_of_list [(''error'', JStr ''defaults unavailable'')]))))
     initial
   = (initial\<lparr>parameters := JUndefined\<rparr>, ''Parameters reset to defaults!'')
   \<and> parameters initial \<noteq> JUndefined
   \<and> panel JUndefined = Inl ''Cannot convert undefined or null to object''"
  by (simp add: loadDefaults_def panel_def entries_def nullish_def initial_def)

subsection \<open>Unknown keys in the defaults\<close>

lemma requestBody_carries:
  "fmlookup (own_props p) key = Some v \<Longrightarrow> own_prop (requestBody msg p) key = v"
  by (auto simp: requestBody_def dest: fmdomI)

lemma no_slider:
  "configs_at key = Missing \<Longrightarrow> \<not> has_slider s key"
  by (auto simp: has_slider_def panel_def split: sum.splits)

lemma foo_defaults:
  "member (JObj (fmap_of_list [(''defaults'',
       JObj (fmap_of_list [(''temperature'', JNum 0.5), (''foo'', JNum 1)]))])) ''defaults''
     = Inr (JObj (fmap_of_list [(''temperature'', JNum 0.5), (''foo'', JNum 1)]))"
  by simp

lemma foo_missing: "configs_at ''foo'' = Missing"
  by (simp add: configs_at_def configs_def object_prototype_names_def)

text \<open>
  Claim C6, amended. A defaults payload is not checked for unknown keys and nothing fails
  on them: the value of its \<^verbatim>\<open>defaults\<close> field is stored whole. Every property of the stored
  value, unknown keys included, is sent in the body of the next request and is in the
  closure that builds the record. Only the panel ignores them: a key at which
  \<^verbatim>\<open>configs[key]\<close> finds nothing gets no slider.
\<close>

theorem defaults_stored_whole:
  "member data ''defaults'' = Inr d \<Longrightarrow>
     fst (loadDefaults (Response ok (Json data)) s) = s\<lparr>parameters := d\<rparr>
     \<and> (\<forall>key v. fmlookup (own_props d) key = Some v \<longrightarrow> trim (message s) \<noteq> [] \<longrightarrow>
          (\<exists>s' req c. handleSubmit (s\<lparr>parameters := d\<rparr>) = (s', Some (req, c))
             \<and> payload req = Some (requestBody (message s) d)
             \<and> own_prop (requestBody (message s) d) key = v
             \<and> c_parameters c = d))
     \<and> (\<forall>key. configs_at key = Missing \<longrightarrow> \<not> has_slider (s\<lparr>parameters := d\<rparr>) key)"
proof -
  assume d: "member data ''defaults'' = Inr d"
  then have stored: "fst (loadDefaults (Response ok (Json data)) s) = s\<lparr>parameters := d\<rparr>"
    by (simp add: loadDefaults_def)
  have sent: "\<exists>s' req c. handleSubmit (s\<lparr>parameters := d\<rparr>) = (s', Some (req, c))
             \<and> payload req = Some (requestBody (message s) d)
             \<and> own_prop (requestBody (message s) d) key = v
             \<and> c_parameters c = d"
    if "fmlookup (own_props d) key = Some v" "trim (message s) \<noteq> []" for key v
    using that by (simp add: handleSubmit_def requestBody_carries)
  from stored sent no_slider show ?thesis by blast
qed

theorem defaults_stored_whole_witness:
  "member (JObj (fmap_of_list [(''defaults'',
       JObj (fmap_of_list [(''temperature'', JNum 0.5), (''foo'', JNum 1)]))])) ''defaults''
     = Inr (JObj (fmap_of_list [(''temperature'', JNum 0.5), (''foo'', JNum 1)]))
   \<and> fst (loadDefaults (Response True (Json (JObj (fmap_of_list [(''defaults'',
          JObj (fmap_of_list [(''temperature'', JNum 0.5), (''foo'', JNum 1)]))]))))
        (initial\<lparr>message := ''hi''\<rparr>))
       = initial\<lparr>message := ''hi'',
           parameters := JObj (fmap_of_list [(''temperature'', JNum 0.5), (''foo'', JNum 1)])\<rparr>
   \<and> fmlookup (own_props (JObj (fmap_of_list [(''temperature'', JNum 0.5), (''foo'', JNum 1)])))
        ''foo'' = Some (JNum 1)
   \<and> trim (message (initial\<lparr>message := ''hi''\<rparr>)) \<noteq> []
   \<and> own_prop (requestBody ''hi''
        (JObj (fmap_of_list [(''temperature'', JNum 0.5), (''foo'', JNum 1)]))) ''foo'' = JNum 1
   \<and> configs_at ''foo'' = Missing
   \<and> \<not> has_slider (initial\<lparr>message := ''hi'',
           parameters := JObj (fmap_of_list [(''temperature'', JNum 0.5), (''foo'', JNum 1)])\<rparr>)
         ''foo''"
proof -
  note t = defaults_stored_whole [OF foo_defaults, of True "initial\<lparr>message := ''hi''\<rparr>"]
  have l: "fmlookup (own_props (JObj (fmap_of_list [(''temperature'', JNum 0.5),
      (''foo'', JNum 1)]))) ''foo'' = Some (JNum 1)"
    by simp
  have m: "trim (message (initial\<lparr>message := ''hi''\<rparr>)) \<noteq> []"
    by (simp add: trim_def is_space_def)
  from t have 1: "fst (loadDefaults (Response True (Json (JObj (fmap_of_list [(''defaults'',
          JObj (fmap_of_list [(''temperature'', JNum 0.5), (''foo'', JNum 1)]))]))))
        (initial\<lparr>message := ''hi''\<rparr>))
       = initial\<lparr>message := ''hi'',
           parameters := JObj (fmap_of_list [(''temperature'', JNum 0.5), (''foo'', JNum 1)])\<rparr>"
    by simp
  from t l m have "own_prop (requestBody (message (initial\<lparr>message := ''hi''\<rparr>))
        (JObj (fmap_of_list [(''temperature'', JNum 0.5), (''foo'', JNum 1)]))) ''foo'' = JNum 1"
    by blast
  then have 2: "own_prop (requestBody ''hi''
        (JObj (fmap_of_list [(''temperature'', JNum 0.5), (''foo'', JNum 1)]))) ''foo'' = JNum 1"
    by simp
  from t foo_missing have "\<not> has_slider ((initial\<lparr>message := ''hi''\<rparr>)\<lparr>parameters :=
      JObj (fmap_of_list [(''temperature'', JNum 0.5), (''foo'', JNum 1)])\<rparr>) ''foo''"
    by blast
  then have 3: "\<not> has_slider (initial\<lparr>message := ''hi'',
           parameters := JObj (fmap_of_list [(''temperature'', JNum 0.5), (''foo'', JNum 1)])\<rparr>)
         ''foo''"
    by simp
  from foo_defaults 1 l m 2 foo_missing 3 show ?thesis by (simp only: simp_thms)
qed

text \<open>
  The claim as first stated fails: after a payload with the unknown key \<^verbatim>\<open>foo\<close>, the
  stored parameters have the key, and the next request carries it.
\<close>

theorem unknown_key_kept_counterexample:
  "fst (loadDefaults
          (Response True (Json (JObj (fmap_of_list
             [(''defaults'', JObj (fmap_of_list [(''temperature'', JNum 0.5), (''foo'', JNum 1)]))]))))
          (initial\<lparr>message := ''hi''\<rparr>))
     = initial\<lparr>message := ''hi'',
         parameters := JObj (fmap_of_list [(''temperature'', JNum 0.5), (''foo'', JNum 1)])\<rparr>
   \<and> fmlookup configs ''foo'' = None
   \<and> own_prop (JObj (fmap_of_list [(''temperature'', JNum 0.5), (''foo'', JNum 1)])) ''foo'' = JNum 1
   \<and> snd (handleSubmit (initial\<lparr>message := ''hi'',
         parameters := JObj (fmap_of_list [(''temperature'', JNum 0.5), (''foo'', JNum 1)])\<rparr>))
     = Some (\<lparr> url = ''http://localhost:5000/chat/completions'', http_method = ''POST'',
               payload = Some (requestBody ''hi''
                 (JObj (fmap_of_list [(''temperature'', JNum 0.5), (''foo'', JNum 1)]))) \<rparr>,
             \<lparr> c_message = ''hi'',
               c_parameters = JObj (fmap_of_list [(''temperature'', JNum 0.5), (''foo'', JNum 1)]) \<rparr>)
   \<and> own_prop (requestBody ''hi''
        (JObj (fmap_of_list [(''temperature'', JNum 0.5), (''foo'', JNum 1)]))) ''foo'' = JNum 1"
  by (simp add: loadDefaults_def configs_def handleSubmit_def trim_def is_space_def
      API_BASE_URL_def requestBody_def)

end
